theory Spec2Isabelle
  imports Complex_Main "HOL-Library.Word"
begin

unbundle bit_operations_syntax

section \<open>Python values and exceptions\<close>

text \<open>
  Python integers are unbounded and modelled as \<open>int\<close>; a \<open>bytes\<close> object is a
  list of 8-bit words. Every exception the modelled code can raise is a value of
  \<open>py_error\<close>, and a function that can raise returns \<open>py_error + 'a\<close> with
  \<open>Inl\<close> for the exception. Leading underscores of Python names are dropped,
  since an Isabelle name cannot start with one.
\<close>

type_synonym byte = "8 word"

datatype py_error = ValueError | IndexError | ZeroDivisionError | OverflowError

definition bnd :: "py_error + 'a \<Rightarrow> ('a \<Rightarrow> py_error + 'b) \<Rightarrow> py_error + 'b" where
  "bnd m f = (case m of Inl e \<Rightarrow> Inl e | Inr x \<Rightarrow> f x)"

text \<open>\<open>bytes([...])\<close>: raises ValueError unless every element is in \<open>range(256)\<close>.\<close>

fun bytes_of :: "int list \<Rightarrow> py_error + byte list" where
  "bytes_of [] = Inr []"
| "bytes_of (x # xs) =
     (if 0 \<le> x \<and> x < 256
      then bnd (bytes_of xs) (\<lambda>bs. Inr (word_of_int x # bs))
      else Inl ValueError)"

text \<open>\<open>buf[i]\<close> on bytes: an int in 0..255; negative indices count from the end.\<close>

definition idx :: "byte list \<Rightarrow> int \<Rightarrow> py_error + int" where
  "idx buf i =
     (let n = int (length buf); j = (if i < 0 then n + i else i)
      in if 0 \<le> j \<and> j < n then Inr (uint (buf ! nat j)) else Inl IndexError)"

text \<open>\<open>buf[a:b]\<close> for non-negative \<open>a\<close> and \<open>b\<close>: clipped to the buffer, never raises.\<close>

definition slice :: "byte list \<Rightarrow> int \<Rightarrow> int \<Rightarrow> byte list" where
  "slice buf a b = take (nat b - nat a) (drop (nat a) buf)"

section \<open>Frame constants (ta_config.py, RADIO["FRAME"])\<close>

definition START_BYTE :: int where "START_BYTE = 0xA5"
definition END_BYTE :: int where "END_BYTE = 0x5A"
definition PROTO_VER :: int where "PROTO_VER = 0x01"
definition MAX_LEN :: int where "MAX_LEN = 16"

definition CMD_PING :: int where "CMD_PING = 0x10"
definition CMD_GET_STS :: int where "CMD_GET_STS = 0x20"
definition CMD_SET_MODE :: int where "CMD_SET_MODE = 0x30"

section \<open>Binary frame codec (ta_radio_433.py)\<close>

text \<open>
  \<^verbatim>\<open>
  def _chk(ver, cmd, grp, payload):
      s = (ver ^ cmd ^ (grp & 0xFF) ^ len(payload)) & 0xFF
      for b in payload:
          s ^= (b & 0xFF)
      return s & 0xFF
  \<close>
\<close>

definition chk :: "int \<Rightarrow> int \<Rightarrow> int \<Rightarrow> byte list \<Rightarrow> int" where
  "chk ver cmd grp payload =
     fold (\<lambda>b s. s XOR (uint b AND 0xFF)) payload
       ((ver XOR cmd XOR (grp AND 0xFF) XOR int (length payload)) AND 0xFF) AND 0xFF"

text \<open>
  \<open>_mk_frame(cmd, gid, payload)\<close>: a payload of \<open>None\<close> is replaced by the empty
  payload, an over-long payload raises ValueError, and so does \<open>bytes([...])\<close>
  when one of the header values is outside 0..255.
\<close>

definition mk_frame :: "int \<Rightarrow> int \<Rightarrow> byte list option \<Rightarrow> py_error + byte list" where
  "mk_frame cmd gid0 payload0 =
     (let payload = (case payload0 of None \<Rightarrow> [] | Some p \<Rightarrow> p) in
      if int (length payload) > MAX_LEN - 7 then Inl ValueError
      else
        let ver = PROTO_VER AND 0xFF;
            gid = gid0 AND 0xFF;
            ln = int (length payload) AND 0xFF;
            c = chk ver cmd gid payload
        in bnd (bytes_of [START_BYTE, ver, cmd, gid, ln]) (\<lambda>hd.
           bnd (bytes_of [c, END_BYTE]) (\<lambda>tl.
           Inr (hd @ payload @ tl))))"

text \<open>
  \<open>_parse_frame(buf)\<close>: \<open>None\<close> is \<open>Inr None\<close>, a parsed frame is
  \<open>Inr (Some (cmd, gid, payload))\<close>, and an exception (an index out of range)
  would be \<open>Inl\<close>. The two operands of \<open>or\<close> are evaluated in order.
\<close>

type_synonym frame = "int \<times> int \<times> byte list"

definition parse_frame :: "byte list \<Rightarrow> py_error + frame option" where
  "parse_frame buf =
     (if buf = [] \<or> length buf < 7 then Inr None
      else
        bnd (idx buf 0) (\<lambda>b0.
        if b0 \<noteq> START_BYTE then Inr None
        else
        bnd (idx buf (- 1)) (\<lambda>bl.
        if bl \<noteq> END_BYTE then Inr None
        else
        bnd (idx buf 1) (\<lambda>ver.
        bnd (idx buf 2) (\<lambda>cmd.
        bnd (idx buf 3) (\<lambda>gid.
        bnd (idx buf 4) (\<lambda>ln.
        if 5 + ln + 2 \<noteq> int (length buf) then Inr None
        else
          let payload = slice buf 5 (5 + ln) in
          bnd (idx buf (5 + ln)) (\<lambda>c.
          if chk ver cmd gid payload \<noteq> c then Inr None
          else Inr (Some (cmd, gid, payload))))))))))"

section \<open>Python numbers\<close>

text \<open>
  Floating point is not modelled: its results depend on the platform (MicroPython on the
  ESP32 computes in single precision, CPython in double precision). The type \<open>'f\<close> of
  floats and the three float operations that the modelled code uses are parameters of the
  model, each returning the exception it raises, if any:
  \<^item> \<open>float_pow x n\<close> is \<open>x ** n\<close> for a float \<open>x\<close> and an int \<open>n\<close>;
  \<^item> \<open>int_mul_float i x\<close> is \<open>i * x\<close> for an int \<open>i\<close> and a float \<open>x\<close>;
  \<^item> \<open>int_of_float x\<close> is \<open>int(x)\<close>.
  A number of the configuration is a Python int or a Python float.
\<close>

datatype 'f py_num = PyInt int | PyFloat 'f

record 'f float_ops =
  float_pow :: "'f \<Rightarrow> int \<Rightarrow> py_error + 'f"
  int_mul_float :: "int \<Rightarrow> 'f \<Rightarrow> py_error + 'f"
  int_of_float :: "'f \<Rightarrow> py_error + int"

text \<open>
  Arithmetic without rounding, on rationals, with \<open>int()\<close> truncating towards zero. It
  agrees with binary floating point wherever the operands and every intermediate result
  are exactly representable: for instance for the powers of 1.5 and of 1025/1024 up to
  the second, multiplied by 500 or by 100.
\<close>

definition py_int :: "rat \<Rightarrow> int" where
  "py_int x = (if x \<ge> 0 then \<lfloor>x\<rfloor> else \<lceil>x\<rceil>)"

definition exact_ops :: "rat float_ops" where
  "exact_ops =
     \<lparr> float_pow = (\<lambda>x n. Inr (x ^ nat n)),
       int_mul_float = (\<lambda>i x. Inr (of_int i * x)),
       int_of_float = (\<lambda>x. Inr (py_int x)) \<rparr>"

section \<open>Radio configuration (ta_config.py, RADIO)\<close>

text \<open>
  The retry policy and the device list are read from the configuration once, at import
  time. They are parameters of the model, so that a property can be stated for every
  policy; \<open>RADIO\<close> below is the configuration as shipped, with the float 1.5 as
  multiplier.
\<close>

record 'f retry_cfg =
  MAX_RETRIES :: int
  TIMEOUT_BASE_MS :: int
  TIMEOUT_MULTIPLIER :: "'f py_num"
  BACKOFF_ENABLED :: bool
  BACKOFF_MS :: int

record 'f radio_cfg =
  SIMULATE :: bool
  GROUP_IDS :: "int list"
  POLL_PERIOD_MS :: int
  REPLY_TIMEOUT_MS :: int
  RETRY :: "'f retry_cfg"
  STATS_ENABLED :: bool

definition RADIO :: "rat radio_cfg" where
  "RADIO = \<lparr> SIMULATE = True, GROUP_IDS = [1, 2, 3, 4, 5],
             POLL_PERIOD_MS = 1500, REPLY_TIMEOUT_MS = 500,
             RETRY = \<lparr> MAX_RETRIES = 3, TIMEOUT_BASE_MS = 500,
                       TIMEOUT_MULTIPLIER = PyFloat (3 / 2),
                       BACKOFF_ENABLED = True, BACKOFF_MS = 100 \<rparr>,
             STATS_ENABLED = True \<rparr>"

definition STATE_UNKNOWN :: int where "STATE_UNKNOWN = 0"
definition STATE_PRESENT :: int where "STATE_PRESENT = 1"
definition STATE_ABSENT :: int where "STATE_ABSENT = 2"

section \<open>The outside world of the terminal\<close>

text \<open>
  What the radio code reads from its environment is a script in the state \<open>world\<close>:
  the millisecond clock, the outcome of each successive \<open>uart.any()/uart.read()\<close>
  and \<open>uart.write()\<close>, and the raw values of the random generator. An exhausted
  script means an idle line (nothing to read, every write complete) and random value 0.
  \<open>time.ticks_diff(a, b)\<close> is the elapsed time \<open>a - b\<close>, which is MicroPython's
  contract for spans shorter than half the tick period; \<open>time.sleep_ms\<close> advances
  the clock.
\<close>

datatype rx_event = RxData "byte list" | RxError
datatype tx_event = TxCount int | TxError

record world =
  now :: int
  uart_rx :: "rx_event list"
  uart_tx :: "tx_event list"
  sent :: "byte list list"
  rnd :: "int list"

definition ticks :: "world \<Rightarrow> int" where
  "ticks w = now w"

definition ticks_diff :: "int \<Rightarrow> int \<Rightarrow> int" where
  "ticks_diff a b = a - b"

definition sleep_ms :: "int \<Rightarrow> world \<Rightarrow> world" where
  "sleep_ms ms w = w\<lparr>now := now w + max 0 ms\<rparr>"

text \<open>The \<open>j\<close>-th raw value that the random generator will deliver from now on.\<close>

definition rnd_at :: "world \<Rightarrow> nat \<Rightarrow> int" where
  "rnd_at w j = (if j < length (rnd w) then rnd w ! j else 0)"

definition randbits :: "nat \<Rightarrow> world \<Rightarrow> int \<times> world" where
  "randbits n w =
     (case rnd w of [] \<Rightarrow> (0, w) | x # xs \<Rightarrow> (x mod 2 ^ n, w\<lparr>rnd := xs\<rparr>))"

section \<open>Statistics (ta_radio_433.py, RadioStats)\<close>

record RadioStats =
  tx_count :: int
  rx_count :: int
  tx_errors :: int
  rx_errors :: int
  timeouts :: int
  avg_rssi :: rat
  last_update :: int

definition update_tx :: "bool \<Rightarrow> RadioStats \<Rightarrow> RadioStats" where
  "update_tx success s =
     (let s1 = s\<lparr>tx_count := tx_count s + 1\<rparr>
      in if \<not> success then s1\<lparr>tx_errors := tx_errors s1 + 1\<rparr> else s1)"

definition update_rx :: "bool \<Rightarrow> rat \<Rightarrow> RadioStats \<Rightarrow> RadioStats" where
  "update_rx success rssi s =
     (let s1 = s\<lparr>rx_count := rx_count s + 1\<rparr>
      in if success then s1\<lparr>avg_rssi := avg_rssi s1 * (9 / 10) + rssi * (1 / 10)\<rparr>
         else s1\<lparr>rx_errors := rx_errors s1 + 1\<rparr>)"

definition update_timeout :: "RadioStats \<Rightarrow> RadioStats" where
  "update_timeout s = s\<lparr>timeouts := timeouts s + 1\<rparr>"

text \<open>\<open>a / b\<close> on Python ints: ZeroDivisionError when \<open>b\<close> is 0.\<close>

definition truediv :: "int \<Rightarrow> int \<Rightarrow> py_error + rat" where
  "truediv a b = (if b = 0 then Inl ZeroDivisionError else Inr (of_int a / of_int b))"

text \<open>
  \<^verbatim>\<open>
  def get_success_rate(self):
      total = self.tx_count + self.rx_count
      if total == 0:
          return 0.0
      errors = self.tx_errors + self.rx_errors
      return 100.0 * (1.0 - errors / total)
  \<close>
  The float result is modelled as a rational, as is the smoothed \<open>avg_rssi\<close>.
\<close>

definition get_success_rate :: "RadioStats \<Rightarrow> py_error + rat" where
  "get_success_rate s =
     (let total = tx_count s + rx_count s in
      if total = 0 then Inr 0
      else
        let errors = tx_errors s + rx_errors s
        in bnd (truediv errors total) (\<lambda>q. Inr (100 * (1 - q))))"

section \<open>The radio (ta_radio_433.py, Radio)\<close>

text \<open>
  The fields of \<open>Radio\<close> that the modelled methods read or write. \<open>uart\<close> tells
  whether \<open>self.uart\<close> is a UART object (rather than \<open>None\<close>); \<open>stats\<close> is
  \<open>None\<close> when statistics are disabled.
\<close>

record radio =
  simulate :: bool
  tick :: int
  sim_states :: "int \<rightharpoonup> int"
  stats :: "RadioStats option"
  uart :: bool

text \<open>
  \<open>Radio._write\<close> (\<open>write\<close> is a reserved word): the exception handler of the source is the \<open>TxError\<close> case.
\<close>

definition write_data :: "byte list \<Rightarrow> radio \<Rightarrow> world \<Rightarrow> int \<times> radio \<times> world" where
  "write_data data r w =
     (if simulate r \<or> \<not> uart r then (int (length data), r, w)
      else
        case uart_tx w of
          [] \<Rightarrow>
            (int (length data), r\<lparr>stats := map_option (update_tx True) (stats r)\<rparr>,
             w\<lparr>sent := sent w @ [data]\<rparr>)
        | TxCount written # rest \<Rightarrow>
            (written,
             r\<lparr>stats := map_option (update_tx (written = int (length data))) (stats r)\<rparr>,
             w\<lparr>uart_tx := rest, sent := sent w @ [data]\<rparr>)
        | TxError # rest \<Rightarrow>
            (0, r\<lparr>stats := map_option (update_tx False) (stats r)\<rparr>, w\<lparr>uart_tx := rest\<rparr>))"

text \<open>
  \<open>Radio._read_all\<close>: \<open>RxData d\<close> is what \<open>uart.read(n) or b""\<close> gives (empty
  when \<open>uart.any()\<close> is 0), \<open>RxError\<close> is an exception of the driver.
\<close>

definition read_all :: "radio \<Rightarrow> world \<Rightarrow> byte list \<times> radio \<times> world" where
  "read_all r w =
     (if simulate r \<or> \<not> uart r then ([], r, w)
      else
        case uart_rx w of
          [] \<Rightarrow> ([], r, w)
        | RxData d # rest \<Rightarrow>
            (d, (if d \<noteq> [] then r\<lparr>stats := map_option (update_rx True 0) (stats r)\<rparr> else r),
             w\<lparr>uart_rx := rest\<rparr>)
        | RxError # rest \<Rightarrow>
            ([], r\<lparr>stats := map_option (update_rx False 0) (stats r)\<rparr>, w\<lparr>uart_rx := rest\<rparr>))"

text \<open>
  \<open>buf.find(bytes([x]), start)\<close> for \<open>start \<ge> 0\<close>: the index of the first
  occurrence at or after \<open>start\<close>, or -1.
\<close>

fun find_idx :: "byte \<Rightarrow> byte list \<Rightarrow> int \<Rightarrow> int" where
  "find_idx x [] i = - 1"
| "find_idx x (y # ys) i = (if y = x then i else find_idx x ys (i + 1))"

definition find :: "byte list \<Rightarrow> int \<Rightarrow> int \<Rightarrow> int" where
  "find buf x start = find_idx (word_of_int x) (drop (nat start) buf) start"

text \<open>
  The frame search of \<open>Radio._exchange\<close>, run on the accumulated buffer after each
  non-empty read:
  \<^verbatim>\<open>
  s = buf.find(bytes([START_BYTE]))
  e = buf.find(bytes([END_BYTE]), s+1)
  if s >= 0 and e > s:
      pkt = buf[s:e+1]
      parsed = _parse_frame(pkt)
  \<close>
  \<open>Inr None\<close> stands for "no frame accepted in this round".
\<close>

definition scan_buf :: "byte list \<Rightarrow> py_error + frame option" where
  "scan_buf buf =
     (let s = find buf START_BYTE 0;
          e = find buf END_BYTE (s + 1)
      in if s \<ge> 0 \<and> e > s then parse_frame (slice buf s (e + 1)) else Inr None)"

text \<open>
  The receive loop of \<open>Radio._exchange\<close> in hardware mode:
  \<^verbatim>\<open>
  while _diff(_ticks(), t0) < timeout_ms:
      chunk = self._read_all()
      if chunk:
          buf += chunk
          ...
          if parsed:
              return parsed
      _sleep_ms(5)
  \<close>
  A parsed frame is a non-empty tuple, hence true.
\<close>

function rx_loop ::
  "int \<Rightarrow> int \<Rightarrow> byte list \<Rightarrow> radio \<Rightarrow> world \<Rightarrow> (py_error + frame option) \<times> radio \<times> world"
where
  "rx_loop t0 timeout_ms buf r w =
     (if ticks_diff (ticks w) t0 < timeout_ms then
        (case read_all r w of (chunk, r1, w1) \<Rightarrow>
           if chunk \<noteq> [] then
             (case scan_buf (buf @ chunk) of
                Inl e \<Rightarrow> (Inl e, r1, w1)
              | Inr (Some parsed) \<Rightarrow> (Inr (Some parsed), r1, w1)
              | Inr None \<Rightarrow> rx_loop t0 timeout_ms (buf @ chunk) r1 (sleep_ms 5 w1))
           else rx_loop t0 timeout_ms buf r1 (sleep_ms 5 w1))
      else (Inr None, r, w))"
  by pat_completeness auto
termination
  apply (relation "measure (\<lambda>(t0, timeout_ms, buf, r, w). nat (timeout_ms - (now w - t0)))")
    apply simp
   apply (auto simp: read_all_def sleep_ms_def ticks_def ticks_diff_def
               split: if_splits list.splits rx_event.splits)
  done

text \<open>
  \<open>Radio._exchange(cmd, gid, payload, timeout_ms)\<close>. In simulation the reply is
  synthesised; on hardware the frame is built (which may raise), written, and the
  receive loop runs until a frame is accepted or the timeout elapses, in which case the
  timeout counter is incremented.
\<close>

definition exchange ::
  "int \<Rightarrow> int \<Rightarrow> byte list option \<Rightarrow> int \<Rightarrow> radio \<Rightarrow> world
     \<Rightarrow> (py_error + frame option) \<times> radio \<times> world"
where
  "exchange cmd gid payload timeout_ms r w =
     (if simulate r then
        if cmd = CMD_PING then
          (case randbits 6 w of (b, w1) \<Rightarrow>
             (Inr (Some (CMD_PING, gid, [0x4F, 0x4B])), r, sleep_ms (50 + (b AND 0x3F)) w1))
        else if cmd = CMD_GET_STS then
          (case randbits 7 w of (d, w1) \<Rightarrow>
           case randbits 4 (sleep_ms (50 + d) w1) of (f, w2) \<Rightarrow>
             let st = (case sim_states r gid of None \<Rightarrow> STATE_UNKNOWN | Some v \<Rightarrow> v);
                 flip = (f = 0 \<and> st \<noteq> STATE_UNKNOWN);
                 st1 = (if flip then (if st = STATE_ABSENT then STATE_PRESENT else STATE_ABSENT)
                        else st);
                 r1 = (if flip then r\<lparr>sim_states := (sim_states r)(gid \<mapsto> st1)\<rparr> else r)
             in (case bytes_of [st1] of
                   Inl e \<Rightarrow> (Inl e, r1, w2)
                 | Inr p \<Rightarrow> (Inr (Some (CMD_GET_STS, gid, p)), r1, w2)))
        else if cmd = CMD_SET_MODE then
          (Inr (Some (CMD_SET_MODE, gid, [0x41, 0x43, 0x4B])), r, w)
        else (Inr None, r, w)
      else
        case mk_frame cmd gid payload of
          Inl e \<Rightarrow> (Inl e, r, w)
        | Inr frame \<Rightarrow>
            (case write_data frame r w of (n, r1, w1) \<Rightarrow>
             case rx_loop (ticks w1) timeout_ms [] r1 w1 of
               (Inr None, r2, w2) \<Rightarrow>
                 (Inr None, r2\<lparr>stats := map_option update_timeout (stats r2)\<rparr>, w2)
             | res \<Rightarrow> res))"

definition py_range :: "int \<Rightarrow> int list" where
  "py_range n = map int [0..<nat n]"

text \<open>
  The timeout of one attempt, \<open>int(TIMEOUT_BASE_MS * (TIMEOUT_MULTIPLIER ** attempt))\<close>.
  With an int multiplier Python computes in unbounded integers; with a float multiplier
  the power, the product and the truncation are the platform's float operations, and
  each of them may raise (OverflowError for a power out of range or for \<open>int(inf)\<close>).
\<close>

definition attempt_timeout :: "'f float_ops \<Rightarrow> 'f retry_cfg \<Rightarrow> int \<Rightarrow> py_error + int" where
  "attempt_timeout fl rc attempt =
     (case TIMEOUT_MULTIPLIER rc of
        PyInt m \<Rightarrow> Inr (TIMEOUT_BASE_MS rc * m ^ nat attempt)
      | PyFloat x \<Rightarrow>
          bnd (float_pow fl x attempt) (\<lambda>p.
          bnd (int_mul_float fl (TIMEOUT_BASE_MS rc) p) (\<lambda>q.
          int_of_float fl q)))"

text \<open>
  \<open>Radio._exchange_with_retry\<close>. The loop is written over the single exchange
  \<open>ex\<close> and the sleep \<open>slp\<close> it calls, and over the state \<open>'s\<close> they act on,
  so that it can also be run against a transport other than the radio's own.
  \<^verbatim>\<open>
  for attempt in range(RETRY_CFG["MAX_RETRIES"]):
      timeout = int(RETRY_CFG["TIMEOUT_BASE_MS"] * (RETRY_CFG["TIMEOUT_MULTIPLIER"] ** attempt))
      result = self._exchange(cmd, gid, payload, timeout)
      if result:
          return result
      if RETRY_CFG["BACKOFF_ENABLED"] and attempt < RETRY_CFG["MAX_RETRIES"] - 1:
          backoff = RETRY_CFG["BACKOFF_MS"] * (attempt + 1)
          _sleep_ms(backoff)
  return None
  \<close>
\<close>

fun retry_loop ::
  "'f float_ops \<Rightarrow> 'f retry_cfg \<Rightarrow> (int \<Rightarrow> 's \<Rightarrow> (py_error + frame option) \<times> 's)
     \<Rightarrow> (int \<Rightarrow> 's \<Rightarrow> 's) \<Rightarrow> int list \<Rightarrow> 's \<Rightarrow> (py_error + frame option) \<times> 's"
where
  "retry_loop fl rc ex slp [] s = (Inr None, s)"
| "retry_loop fl rc ex slp (attempt # rest) s =
     (case attempt_timeout fl rc attempt of
        Inl e \<Rightarrow> (Inl e, s)
      | Inr timeout \<Rightarrow>
          (case ex timeout s of
             (Inl e, s1) \<Rightarrow> (Inl e, s1)
           | (Inr (Some result), s1) \<Rightarrow> (Inr (Some result), s1)
           | (Inr None, s1) \<Rightarrow>
               retry_loop fl rc ex slp rest
                 (if BACKOFF_ENABLED rc \<and> attempt < MAX_RETRIES rc - 1
                  then slp (BACKOFF_MS rc * (attempt + 1)) s1 else s1)))"

definition exchange_with_retry ::
  "'f float_ops \<Rightarrow> 'f radio_cfg \<Rightarrow> int \<Rightarrow> int \<Rightarrow> byte list option \<Rightarrow> radio \<times> world
     \<Rightarrow> (py_error + frame option) \<times> radio \<times> world"
where
  "exchange_with_retry fl cfg cmd gid payload =
     retry_loop fl (RETRY cfg)
       (\<lambda>timeout (r, w). exchange cmd gid payload timeout r w)
       (\<lambda>ms (r, w). (r, sleep_ms ms w))
       (py_range (MAX_RETRIES (RETRY cfg)))"

text \<open>\<open>DDStatus\<close>: the constructor coerces every field with \<open>int()\<close>.\<close>

record DDStatus =
  dd_id :: int
  state :: int
  battery :: int
  rssi :: int
  flags :: int

text \<open>
  The status byte of a reply, as \<open>poll_status\<close> and \<open>request_status\<close> read it:
  \<^verbatim>\<open>
  if resp and resp[0] == CMD_GET_STS and len(resp[2]) == 1:
      st = resp[2][0]
  else:
      st = STATE_UNKNOWN
  \<close>
\<close>

definition reply_state :: "frame option \<Rightarrow> int" where
  "reply_state resp =
     (case resp of
        None \<Rightarrow> STATE_UNKNOWN
      | Some (c, g, p) \<Rightarrow>
          if c = CMD_GET_STS \<and> length p = 1 then uint (p ! 0) else STATE_UNKNOWN)"

text \<open>\<open>period = max(1, int(POLL_PERIOD_MS // 200) or 1)\<close>\<close>

definition poll_period :: "'f radio_cfg \<Rightarrow> int" where
  "poll_period cfg =
     max 1 (let q = POLL_PERIOD_MS cfg div 200 in if q = 0 then 1 else q)"

text \<open>The \<open>for gid in GROUP_IDS\<close> loop of \<open>Radio.poll_status\<close>.\<close>

fun poll_loop ::
  "'f float_ops \<Rightarrow> 'f radio_cfg \<Rightarrow> int list \<Rightarrow> DDStatus list \<Rightarrow> radio \<Rightarrow> world
     \<Rightarrow> (py_error + DDStatus list) \<times> radio \<times> world"
where
  "poll_loop fl cfg [] out r w = (Inr out, r, w)"
| "poll_loop fl cfg (gid # gids) out r w =
     (if simulate r then
        (case randbits 5 w of (b1, w1) \<Rightarrow>
         case randbits 5 w1 of (b2, w2) \<Rightarrow>
           let st = (case sim_states r gid of None \<Rightarrow> STATE_UNKNOWN | Some v \<Rightarrow> v);
               batt = 75 + b1 mod 25;
               rs = 110 - b2 mod 30
           in poll_loop fl cfg gids
                (out @ [\<lparr>dd_id = gid, state = st, battery = batt, rssi = rs, flags = 0\<rparr>]) r w2)
      else
        (case exchange_with_retry fl cfg CMD_GET_STS gid (Some []) (r, w) of
           (Inl e, r1, w1) \<Rightarrow> (Inl e, r1, w1)
         | (Inr resp, r1, w1) \<Rightarrow>
             poll_loop fl cfg gids
               (out @ [\<lparr>dd_id = gid, state = reply_state resp, battery = 90, rssi = 90,
                        flags = 0\<rparr>]) r1 w1))"

text \<open>
  \<^verbatim>\<open>
  def poll_status(self):
      out = []
      self._tick += 1
      period = max(1, int(POLL_PERIOD_MS // 200) or 1)
      if (self._tick % period) == 0:
          for gid in GROUP_IDS: ...
      return out
  \<close>
\<close>

definition poll_status ::
  "'f float_ops \<Rightarrow> 'f radio_cfg \<Rightarrow> radio \<Rightarrow> world
     \<Rightarrow> (py_error + DDStatus list) \<times> radio \<times> world" where
  "poll_status fl cfg r w =
     (let r1 = r\<lparr>tick := tick r + 1\<rparr> in
      if tick r1 mod poll_period cfg = 0 then poll_loop fl cfg (GROUP_IDS cfg) [] r1 w
      else (Inr [], r1, w))"

definition request_status ::
  "'f float_ops \<Rightarrow> 'f radio_cfg \<Rightarrow> int \<Rightarrow> radio \<Rightarrow> world
     \<Rightarrow> (py_error + int) \<times> radio \<times> world" where
  "request_status fl cfg did r w =
     (if did \<notin> set (GROUP_IDS cfg) then (Inr STATE_UNKNOWN, r, w)
      else
        case exchange_with_retry fl cfg CMD_GET_STS did (Some []) (r, w) of
          (Inl e, r1, w1) \<Rightarrow> (Inl e, r1, w1)
        | (Inr resp, r1, w1) \<Rightarrow> (Inr (reply_state resp), r1, w1))"

section \<open>The terminal application (ta_app.py, TaApp)\<close>

record ta_app =
  states :: "int \<rightharpoonup> int"
  error_count :: int

text \<open>\<open>self.states = {dd_id: STATE_UNKNOWN for dd_id in config.RADIO["GROUP_IDS"]}\<close>\<close>

definition init_states :: "'f radio_cfg \<Rightarrow> (int \<rightharpoonup> int)" where
  "init_states cfg = fold (\<lambda>i m. m(i \<mapsto> STATE_UNKNOWN)) (GROUP_IDS cfg) Map.empty"

text \<open>
  \<^verbatim>\<open>
  def _update_states(self):
      try:
          for st in self.radio.poll_status():
              self.states[st.dd_id] = st.state
      except Exception as e:
          self.error_count += 1
  \<close>
  \<open>apply_statuses\<close> is the loop over the statuses that the radio returned.
\<close>

definition apply_statuses :: "DDStatus list \<Rightarrow> (int \<rightharpoonup> int) \<Rightarrow> (int \<rightharpoonup> int)" where
  "apply_statuses sts m = fold (\<lambda>st m. m(dd_id st \<mapsto> state st)) sts m"

definition update_states ::
  "'f float_ops \<Rightarrow> 'f radio_cfg \<Rightarrow> ta_app \<Rightarrow> radio \<Rightarrow> world
     \<Rightarrow> ta_app \<times> radio \<times> world" where
  "update_states fl cfg app r w =
     (case poll_status fl cfg r w of
        (Inl e, r1, w1) \<Rightarrow> (app\<lparr>error_count := error_count app + 1\<rparr>, r1, w1)
      | (Inr sts, r1, w1) \<Rightarrow> (app\<lparr>states := apply_statuses sts (states app)\<rparr>, r1, w1))"

section \<open>A transport that never answers\<close>





section \<open>The detector (dd/main.py)\<close>

definition WATCHDOG_MS :: int where "WATCHDOG_MS = 30000"

text \<open>
  The globals of the main loop that command dispatch reads and writes, and the
  detector's environment: whether the non-volatile store fails (any of
  \<open>esp32.NVS\<close>, \<open>set_blob\<close>, \<open>commit\<close> raising), the blob stored under key
  \<open>"id"\<close>, the strings handed to \<open>uart.write\<close> and the LED pulses, in order.
\<close>

record detector =
  DETECTOR_ID :: string
  ok_count :: int
  nok_count :: int
  setid_ok_count :: int
  setid_err_count :: int

record dd_world =
  nvs_faulty :: bool
  nvs_id :: "string option"
  uart_out :: "string list"
  led_pulses :: "int list"

definition persist_id_to_nvs :: "string \<Rightarrow> dd_world \<Rightarrow> bool \<times> dd_world" where
  "persist_id_to_nvs new_id w =
     (if nvs_faulty w then (False, w) else (True, w\<lparr>nvs_id := Some new_id\<rparr>))"

definition measure_state :: int where
  "measure_state = 1"

definition uart_write_str :: "string \<Rightarrow> dd_world \<Rightarrow> dd_world" where
  "uart_write_str s w = w\<lparr>uart_out := uart_out w @ [s]\<rparr>"

text \<open>\<open>"ACK:{}:{}\n".format(det_id, 1 if state else 0)\<close>\<close>

definition send_ack :: "string \<Rightarrow> int \<Rightarrow> dd_world \<Rightarrow> dd_world" where
  "send_ack det_id st w =
     uart_write_str (''ACK:'' @ det_id @ '':'' @ (if st \<noteq> 0 then ''1'' else ''0'') @ [CHR 0x0A]) w"

text \<open>\<open>"ACKSETID:{}:{}\n".format(new_id, "OK" if ok else "ERR")\<close>\<close>

definition send_ack_id_change :: "bool \<Rightarrow> string \<Rightarrow> dd_world \<Rightarrow> dd_world" where
  "send_ack_id_change ok new_id w =
     uart_write_str (''ACKSETID:'' @ new_id @ '':'' @ (if ok then ''OK'' else ''ERR'') @ [CHR 0x0A]) w"

definition led_pulse :: "int \<Rightarrow> dd_world \<Rightarrow> dd_world" where
  "led_pulse ms w = w\<lparr>led_pulses := led_pulses w @ [ms]\<rparr>"

text \<open>\<open>str.upper()\<close> of MicroPython: the ASCII letters a..z are mapped to A..Z.\<close>

definition upper_char :: "char \<Rightarrow> char" where
  "upper_char c =
     (let n = (of_char c :: nat) in if 97 \<le> n \<and> n \<le> 122 then char_of (n - 32) else c)"

definition upper :: "string \<Rightarrow> string" where
  "upper s = map upper_char s"

text \<open>
  The dispatch of one parsed line \<open>(cmd, det_id, None)\<close> in the main loop
  (\<open>if cmd == "POLL": ... elif cmd == "SETID": ...\<close>).
\<close>

definition handle_command :: "string \<times> string \<Rightarrow> detector \<Rightarrow> dd_world \<Rightarrow> detector \<times> dd_world" where
  "handle_command parsed d w =
     (case parsed of (cmd, det_id) \<Rightarrow>
        if cmd = ''POLL'' then
          if det_id = DETECTOR_ID d \<or> upper det_id = ''ALL'' then
            (d\<lparr>ok_count := ok_count d + 1\<rparr>,
             led_pulse 40 (send_ack (DETECTOR_ID d) measure_state w))
          else (d\<lparr>nok_count := nok_count d + 1\<rparr>, w)
        else if cmd = ''SETID'' then
          (let new_id = det_id in
           case persist_id_to_nvs new_id w of (ok, w1) \<Rightarrow>
             if ok then
               (d\<lparr>DETECTOR_ID := new_id, setid_ok_count := setid_ok_count d + 1\<rparr>,
                send_ack_id_change ok new_id (led_pulse 100 w1))
             else
               (d\<lparr>setid_err_count := setid_err_count d + 1\<rparr>,
                send_ack_id_change ok new_id w1))
        else (d, w))"

subsection \<open>Watchdog\<close>

text \<open>
  \<^verbatim>\<open>
  def wdt_cb(t):
      global last_loop_ts, _wdt_triggered
      if _wdt_triggered:
          return
      if time.ticks_diff(time.ticks_ms(), last_loop_ts) > WATCHDOG_MS:
          _wdt_triggered = True
          try:
              _blink_led(4, 80, 80)
          except Exception:
              pass
          reset()
  \<close>
  The callback is given the reading of \<open>time.ticks_ms()\<close> and returns what it did:
  the blink and the reset it asked for. \<open>timer_fires\<close> is the periodic timer calling
  it at successive clock readings while the main loop does not run.
\<close>

record wdt =
  last_loop_ts :: int
  wdt_triggered :: bool

datatype wdt_action = Blink int int int | Reset

definition wdt_cb :: "int \<Rightarrow> wdt \<Rightarrow> wdt \<times> wdt_action list" where
  "wdt_cb now_ms s =
     (if wdt_triggered s then (s, [])
      else if ticks_diff now_ms (last_loop_ts s) > WATCHDOG_MS then
        (s\<lparr>wdt_triggered := True\<rparr>, [Blink 4 80 80, Reset])
      else (s, []))"

fun timer_fires :: "int list \<Rightarrow> wdt \<Rightarrow> wdt \<times> wdt_action list" where
  "timer_fires [] s = (s, [])"
| "timer_fires (t # ts) s =
     (case wdt_cb t s of (s1, a1) \<Rightarrow>
      case timer_fires ts s1 of (s2, a2) \<Rightarrow> (s2, a1 @ a2))"

section \<open>Example states\<close>

text \<open>
  Concrete states at which the properties below are evaluated: a radio as
  \<open>Radio.__init__\<close> leaves it (tick 0, fresh statistics) in simulation and on
  hardware, and an environment with an idle line at time 0.
\<close>

definition stats0 :: RadioStats where
  "stats0 = \<lparr>tx_count = 0, rx_count = 0, tx_errors = 0, rx_errors = 0, timeouts = 0,
             avg_rssi = 0, last_update = 0\<rparr>"

definition sim_radio :: radio where
  "sim_radio = \<lparr>simulate = True, tick = 0,
                sim_states = [1 \<mapsto> 1, 2 \<mapsto> 2, 3 \<mapsto> 1, 4 \<mapsto> 1, 5 \<mapsto> 2],
                stats = Some stats0, uart = False\<rparr>"

definition hw_radio :: radio where
  "hw_radio = \<lparr>simulate = False, tick = 0,
               sim_states = [1 \<mapsto> 1, 2 \<mapsto> 2, 3 \<mapsto> 1, 4 \<mapsto> 1, 5 \<mapsto> 2],
               stats = Some stats0, uart = True\<rparr>"

definition idle_world :: world where
  "idle_world = \<lparr>now = 0, uart_rx = [], uart_tx = [], sent = [], rnd = []\<rparr>"

section \<open>Properties of the frame codec\<close>

lemma and255_mod: "(x::int) AND 255 = x mod 256"
  using take_bit_eq_mask[of 8 x] by (simp add: take_bit_eq_mod mask_eq_exp_minus_1)

lemma and255_range: "0 \<le> (x::int) AND 255" "(x::int) AND 255 < 256"
  by (simp_all add: and255_mod)

lemma chk_range: "0 \<le> chk v c g p \<and> chk v c g p < 256"
  unfolding chk_def using and255_range by simp

lemma uint_byte: "0 \<le> x \<Longrightarrow> x < 256 \<Longrightarrow> uint (word_of_int x :: byte) = x"
  by (simp add: uint_word_of_int)

lemma idx_nat: "n < length buf \<Longrightarrow> idx buf (int n) = Inr (uint (buf ! n))"
  by (simp add: idx_def Let_def)

lemma idx_last: "buf \<noteq> [] \<Longrightarrow> idx buf (- 1) = Inr (uint (last buf))"
  by (auto simp: idx_def Let_def last_conv_nth nat_diff_distrib' int_ops)

lemma idx_header:
  assumes "7 \<le> length buf"
  shows "idx buf 0 = Inr (uint (buf ! 0))" "idx buf 1 = Inr (uint (buf ! 1))"
     "idx buf 2 = Inr (uint (buf ! 2))" "idx buf 3 = Inr (uint (buf ! 3))"
     "idx buf 4 = Inr (uint (buf ! 4))" "idx buf (- 1) = Inr (uint (last buf))"
proof -
  have ne: "buf \<noteq> []" using assms by (cases buf) simp_all
  show "idx buf 0 = Inr (uint (buf ! 0))" using ne by (simp add: idx_def)
  show "idx buf 1 = Inr (uint (buf ! 1))" using assms by (simp add: idx_def)
  show "idx buf 2 = Inr (uint (buf ! 2))" using assms by (simp add: idx_def)
  show "idx buf 3 = Inr (uint (buf ! 3))" using assms by (simp add: idx_def)
  show "idx buf 4 = Inr (uint (buf ! 4))" using assms by (simp add: idx_def)
  show "idx buf (- 1) = Inr (uint (last buf))" by (rule idx_last[OF ne])
qed

lemma idx_chk:
  assumes "7 \<le> length buf" "5 + uint (buf ! 4) + 2 = int (length buf)"
  shows "idx buf (5 + uint (buf ! 4)) = Inr (uint (buf ! (length buf - 2)))"
proof -
  have "5 + uint (buf ! 4) = int (length buf - 2)" using assms by linarith
  moreover have "length buf - 2 < length buf" using assms(1) by simp
  ultimately show ?thesis using idx_nat[of "length buf - 2" buf] by metis
qed

lemma slice_payload:
  assumes "7 \<le> length buf" "5 + uint (buf ! 4) + 2 = int (length buf)"
  shows "slice buf 5 (5 + uint (buf ! 4)) = take (length buf - 7) (drop 5 buf)"
proof -
  have "nat (5 + uint (buf ! 4)) - nat 5 = length buf - 7" using assms by linarith
  thus ?thesis by (simp add: slice_def)
qed

text \<open>
  What \<open>parse_frame\<close> computes, in closed form: it never raises, and it accepts exactly
  the buffers that pass the five checks.
\<close>

lemma parse_frame_eq:
  "parse_frame buf =
     Inr (if 7 \<le> length buf \<and> uint (buf ! 0) = START_BYTE \<and> uint (last buf) = END_BYTE
             \<and> 5 + uint (buf ! 4) + 2 = int (length buf)
             \<and> chk (uint (buf ! 1)) (uint (buf ! 2)) (uint (buf ! 3))
                  (take (length buf - 7) (drop 5 buf)) = uint (buf ! (length buf - 2))
          then Some (uint (buf ! 2), uint (buf ! 3), take (length buf - 7) (drop 5 buf))
          else None)"
proof (cases "7 \<le> length buf")
  case False thus ?thesis by (simp add: parse_frame_def)
next
  case True
  hence ne: "\<not> (buf = [] \<or> length buf < 7)" by auto
  show ?thesis
  proof (cases "5 + uint (buf ! 4) + 2 = int (length buf)")
    case False
    thus ?thesis using ne idx_header[OF True]
      by (simp add: parse_frame_def bnd_def)
  next
    case len: True
    show ?thesis using ne idx_header[OF True] idx_chk[OF True len] slice_payload[OF True len] len
      by (simp add: parse_frame_def bnd_def Let_def)
  qed
qed

lemma mk_frame_bytes:
  assumes "0 \<le> cmd" "cmd < 256" "int (length payload) \<le> MAX_LEN - 7"
  shows "mk_frame cmd gid (Some payload) =
     Inr ([word_of_int START_BYTE, word_of_int (PROTO_VER AND 0xFF), word_of_int cmd,
           word_of_int (gid AND 0xFF), word_of_int (int (length payload) AND 0xFF)]
          @ payload @
          [word_of_int (chk (PROTO_VER AND 0xFF) cmd (gid AND 0xFF) payload), word_of_int END_BYTE])"
  using assms and255_range[of gid] and255_range[of "int (length payload)"] and255_range[of PROTO_VER]
    chk_range[of "PROTO_VER AND 0xFF" cmd "gid AND 0xFF" payload]
  by (simp add: mk_frame_def Let_def bnd_def START_BYTE_def END_BYTE_def)

text \<open>
  C1. Round trip: for a command byte and a target id in 0..255 and a payload of at most
  \<open>MAX_LEN - 7\<close> bytes, \<open>_mk_frame\<close> raises nothing and \<open>_parse_frame\<close> of its
  result is exactly \<open>(cmd, gid, payload)\<close>.
\<close>

theorem mk_parse_roundtrip:
  assumes "0 \<le> cmd" "cmd < 256" "0 \<le> gid" "gid < 256" "int (length payload) \<le> MAX_LEN - 7"
  shows "\<exists>bs. mk_frame cmd gid (Some payload) = Inr bs
            \<and> parse_frame bs = Inr (Some (cmd, gid, payload))"
proof -
  let ?c = "chk 1 cmd gid payload"
  let ?n = "length payload"
  let ?bs = "[0xA5, 1, word_of_int cmd, word_of_int gid, word_of_int (int ?n)]
          @ payload @ [word_of_int ?c, 0x5A] :: byte list"
  have n: "int ?n < 256" "?n \<le> 9" using assms(5) by (simp_all add: MAX_LEN_def)
  have g: "gid AND 0xFF = gid" "int ?n AND 0xFF = int ?n" using assms(3,4) n
    by (simp_all add: and255_mod)
  have mk: "mk_frame cmd gid (Some payload) = Inr ?bs"
    using mk_frame_bytes[OF assms(1,2,5), of gid] g
    by (simp add: PROTO_VER_def START_BYTE_def END_BYTE_def)
  have u: "uint (word_of_int cmd :: byte) = cmd" "uint (word_of_int gid :: byte) = gid"
    "uint (word_of_int (int ?n) :: byte) = int ?n" "uint (word_of_int ?c :: byte) = ?c"
    using assms(1-4) n chk_range[of 1 cmd gid payload] uint_byte[of "int ?n"]
    by (simp_all add: uint_byte)
  have "parse_frame ?bs = Inr (Some (cmd, gid, payload))"
    using u by (simp add: parse_frame_eq nth_append START_BYTE_def END_BYTE_def)
  with mk show ?thesis by blast
qed

theorem mk_parse_roundtrip_witness:
  "\<exists>bs. mk_frame 0x20 3 (Some [1]) = Inr bs \<and> parse_frame bs = Inr (Some (0x20, 3, [1]))"
  using mk_parse_roundtrip[of "0x20" 3 "[1]"] by (simp add: MAX_LEN_def)

text \<open>
  C4. \<open>_parse_frame\<close> raises on no input, and returns \<open>None\<close> whenever the buffer is
  shorter than 7 bytes, or does not begin with the start marker, or does not end with the
  end marker, or declares a payload length other than its size minus 7, or carries a
  checksum byte other than the checksum recomputed over its header and payload.
\<close>

theorem parse_frame_rejects_malformed:
  "(\<exists>res. parse_frame buf = Inr res) \<and>
   (length buf < 7
      \<or> uint (hd buf) \<noteq> START_BYTE
      \<or> uint (last buf) \<noteq> END_BYTE
      \<or> uint (buf ! 4) \<noteq> int (length buf) - 7
      \<or> chk (uint (buf ! 1)) (uint (buf ! 2)) (uint (buf ! 3))
           (take (length buf - 7) (drop 5 buf)) \<noteq> uint (buf ! (length buf - 2))
    \<longrightarrow> parse_frame buf = Inr None)"
proof (cases "7 \<le> length buf")
  case False thus ?thesis by (simp add: parse_frame_eq)
next
  case True
  hence "buf \<noteq> []" by (cases buf) simp_all
  hence "hd buf = buf ! 0" by (simp add: hd_conv_nth)
  thus ?thesis by (auto simp: parse_frame_eq)
qed

theorem parse_frame_rejects_malformed_witness:
  "parse_frame [0xA5, 1, 0x20, 3, 1, 1, 0x23, 0x5A] = Inr None
   \<and> parse_frame [0xA5, 1, 0x20] = Inr None
   \<and> (\<exists>res. parse_frame [0xA5, 1, 0x20, 3, 1, 1, 0x22, 0x5A] = Inr res)"
  using parse_frame_rejects_malformed[of "[0xA5, 1, 0x20, 3, 1, 1, 0x23, 0x5A]"]
    parse_frame_rejects_malformed[of "[0xA5, 1, 0x20]"]
    parse_frame_rejects_malformed[of "[0xA5, 1, 0x20, 3, 1, 1, 0x22, 0x5A]"]
  by (simp add: chk_def)

section \<open>Properties of the statistics\<close>

text \<open>
  C10. \<open>get_success_rate\<close> is total: it returns 0.0 when \<open>tx_count + rx_count\<close> is 0,
  and for every counter state it returns a value and raises nothing (the division is
  reached only with a non-zero total).
\<close>

theorem get_success_rate_total:
  "(tx_count s + rx_count s = 0 \<longrightarrow> get_success_rate s = Inr 0)
   \<and> (tx_count s + rx_count s \<noteq> 0 \<longrightarrow>
        get_success_rate s =
          Inr (100 * (1 - of_int (tx_errors s + rx_errors s) / of_int (tx_count s + rx_count s))))
   \<and> (\<exists>v. get_success_rate s = Inr v)"
  by (simp add: get_success_rate_def truediv_def bnd_def Let_def)

theorem get_success_rate_total_witness:
  "get_success_rate \<lparr>tx_count = 0, rx_count = 0, tx_errors = 0, rx_errors = 0, timeouts = 0,
                      avg_rssi = 0, last_update = 0\<rparr> = Inr 0
   \<and> get_success_rate \<lparr>tx_count = 3, rx_count = 1, tx_errors = 1, rx_errors = 0, timeouts = 0,
                      avg_rssi = 0, last_update = 0\<rparr> = Inr 75"
  using get_success_rate_total
          [of "\<lparr>tx_count = 0, rx_count = 0, tx_errors = 0, rx_errors = 0, timeouts = 0,
                avg_rssi = 0, last_update = 0\<rparr>"]
        get_success_rate_total
          [of "\<lparr>tx_count = 3, rx_count = 1, tx_errors = 1, rx_errors = 0, timeouts = 0,
                avg_rssi = 0, last_update = 0\<rparr>"]
  by simp

section \<open>Properties of the radio\<close>

text \<open>
  C9. For an id that is not in \<open>GROUP_IDS\<close>, \<open>request_status\<close> returns
  \<open>STATE_UNKNOWN\<close> and leaves the radio and its environment as they were: nothing is
  written, no exchange or retry runs, and the statistics do not change.
\<close>

theorem request_status_unknown_id:
  "did \<notin> set (GROUP_IDS cfg) \<Longrightarrow> request_status fl cfg did r w = (Inr STATE_UNKNOWN, r, w)"
  by (simp add: request_status_def)

theorem request_status_unknown_id_witness:
  "request_status exact_ops RADIO 9 hw_radio idle_world = (Inr STATE_UNKNOWN, hw_radio, idle_world)"
  using request_status_unknown_id[of 9 RADIO exact_ops hw_radio idle_world] by (simp add: RADIO_def)

section \<open>Properties of the detector\<close>

text \<open>
  C5. A SETID command whose persistence fails leaves \<open>DETECTOR_ID\<close> as it was and is
  answered with \<open>ACKSETID:<id>:ERR\<close>; when persistence succeeds \<open>DETECTOR_ID\<close>
  becomes the new id, the answer is \<open>ACKSETID:<id>:OK\<close>, and a POLL carrying the new
  id that follows immediately is acknowledged with \<open>ACK:<id>:1\<close>. This holds for
  every id, in particular for the ids of 1 to 8 characters that \<open>parse_line\<close> lets
  through.
\<close>

theorem setid_persistence:
  "(nvs_faulty w \<longrightarrow>
      (case handle_command (''SETID'', new_id) d w of (d1, w1) \<Rightarrow>
         DETECTOR_ID d1 = DETECTOR_ID d
         \<and> uart_out w1 = uart_out w @ [''ACKSETID:'' @ new_id @ '':ERR'' @ [CHR 0x0A]]))
   \<and> (\<not> nvs_faulty w \<longrightarrow>
      (case handle_command (''SETID'', new_id) d w of (d1, w1) \<Rightarrow>
         DETECTOR_ID d1 = new_id
         \<and> uart_out w1 = uart_out w @ [''ACKSETID:'' @ new_id @ '':OK'' @ [CHR 0x0A]]
         \<and> (case handle_command (''POLL'', new_id) d1 w1 of (d2, w2) \<Rightarrow>
               uart_out w2 = uart_out w1 @ [''ACK:'' @ new_id @ '':1'' @ [CHR 0x0A]]
               \<and> ok_count d2 = ok_count d1 + 1
               \<and> nok_count d2 = nok_count d1)))"
  by (simp add: handle_command_def persist_id_to_nvs_def send_ack_id_change_def send_ack_def
        uart_write_str_def led_pulse_def measure_state_def)

theorem setid_persistence_witness:
  "(case handle_command (''SETID'', ''07'')
         \<lparr>DETECTOR_ID = ''02'', ok_count = 0, nok_count = 0, setid_ok_count = 0,
          setid_err_count = 0\<rparr>
         \<lparr>nvs_faulty = True, nvs_id = None, uart_out = [], led_pulses = []\<rparr> of
      (d1, w1) \<Rightarrow> DETECTOR_ID d1 = ''02''
                  \<and> uart_out w1 = [''ACKSETID:07:ERR'' @ [CHR 0x0A]])
   \<and> (case handle_command (''SETID'', ''07'')
         \<lparr>DETECTOR_ID = ''02'', ok_count = 0, nok_count = 0, setid_ok_count = 0,
          setid_err_count = 0\<rparr>
         \<lparr>nvs_faulty = False, nvs_id = None, uart_out = [], led_pulses = []\<rparr> of
      (d1, w1) \<Rightarrow> DETECTOR_ID d1 = ''07''
                  \<and> (case handle_command (''POLL'', ''07'') d1 w1 of
                        (d2, w2) \<Rightarrow> uart_out w2 = uart_out w1 @ [''ACK:07:1'' @ [CHR 0x0A]]))"
  using setid_persistence
          [where w = "\<lparr>nvs_faulty = True, nvs_id = None, uart_out = [], led_pulses = []\<rparr>"
             and new_id = "''07''"
             and d = "\<lparr>DETECTOR_ID = ''02'', ok_count = 0, nok_count = 0, setid_ok_count = 0,
                setid_err_count = 0\<rparr>"]
        setid_persistence
          [where w = "\<lparr>nvs_faulty = False, nvs_id = None, uart_out = [], led_pulses = []\<rparr>"
             and new_id = "''07''"
             and d = "\<lparr>DETECTOR_ID = ''02'', ok_count = 0, nok_count = 0, setid_ok_count = 0,
                setid_err_count = 0\<rparr>"]
  by (simp split: prod.splits)

lemma timer_fires_triggered: "wdt_triggered s \<Longrightarrow> timer_fires ts s = (s, [])"
  by (induction ts) (simp_all add: wdt_cb_def)

lemma timer_fires_before_deadline:
  "\<not> wdt_triggered s \<Longrightarrow> \<forall>t\<in>set ts. ticks_diff t (last_loop_ts s) \<le> WATCHDOG_MS
     \<Longrightarrow> timer_fires ts s = (s, [])"
  by (induction ts) (simp_all add: wdt_cb_def)

lemma timer_fires_append:
  "timer_fires (ts @ us) s =
     (case timer_fires ts s of (s1, a1) \<Rightarrow>
      case timer_fires us s1 of (s2, a2) \<Rightarrow> (s2, a1 @ a2))"
  by (induction ts arbitrary: s) (simp_all split: prod.splits)

text \<open>
  C6. While the main loop does not update \<open>last_loop_ts\<close>, the callbacks that fire
  before the elapsed time exceeds \<open>WATCHDOG_MS\<close> do nothing; the first one that fires
  past the deadline sets \<open>_wdt_triggered\<close> and resets; every later one returns at the
  guard. Over the whole run the reset is requested exactly once, however many callbacks
  follow.
\<close>

theorem wdt_fires_once:
  assumes "\<not> wdt_triggered s"
    and "\<forall>u\<in>set pre. ticks_diff u (last_loop_ts s) \<le> WATCHDOG_MS"
    and "ticks_diff t (last_loop_ts s) > WATCHDOG_MS"
  shows "timer_fires pre s = (s, [])
       \<and> wdt_cb t s = (s\<lparr>wdt_triggered := True\<rparr>, [Blink 4 80 80, Reset])
       \<and> timer_fires post (s\<lparr>wdt_triggered := True\<rparr>) = (s\<lparr>wdt_triggered := True\<rparr>, [])
       \<and> timer_fires (pre @ t # post) s = (s\<lparr>wdt_triggered := True\<rparr>, [Blink 4 80 80, Reset])
       \<and> count_list (snd (timer_fires (pre @ t # post) s)) Reset = 1"
proof -
  have a: "timer_fires pre s = (s, [])"
    using assms(1,2) by (rule timer_fires_before_deadline)
  have b: "wdt_cb t s = (s\<lparr>wdt_triggered := True\<rparr>, [Blink 4 80 80, Reset])"
    using assms(1,3) by (simp add: wdt_cb_def)
  have c: "timer_fires post (s\<lparr>wdt_triggered := True\<rparr>) = (s\<lparr>wdt_triggered := True\<rparr>, [])"
    by (rule timer_fires_triggered) simp
  have d: "timer_fires (pre @ t # post) s = (s\<lparr>wdt_triggered := True\<rparr>, [Blink 4 80 80, Reset])"
    by (simp add: timer_fires_append a b c)
  show ?thesis using a b c d by simp
qed

theorem wdt_fires_once_witness:
  "timer_fires [15000, 30000, 45000, 60000, 75000] \<lparr>last_loop_ts = 0, wdt_triggered = False\<rparr>
     = (\<lparr>last_loop_ts = 0, wdt_triggered = True\<rparr>, [Blink 4 80 80, Reset])"
  using wdt_fires_once[of "\<lparr>last_loop_ts = 0, wdt_triggered = False\<rparr>" "[15000, 30000]" 45000
          "[60000, 75000]"]
  by (simp add: ticks_diff_def WATCHDOG_MS_def)

section \<open>Properties of the retry loop\<close>















section \<open>Properties of polling\<close>

lemma scan_buf_total: "\<exists>res. scan_buf buf = Inr res"
  by (simp add: scan_buf_def Let_def parse_frame_eq)

lemma read_all_mode:
  "read_all r w = (c, r1, w1) \<Longrightarrow> simulate r1 = simulate r \<and> tick r1 = tick r"
  by (auto simp: read_all_def split: if_splits list.splits rx_event.splits)

lemma write_data_mode:
  "write_data d r w = (n, r1, w1) \<Longrightarrow> simulate r1 = simulate r \<and> tick r1 = tick r"
  by (auto simp: write_data_def split: if_splits list.splits tx_event.splits)

lemma rx_loop_ok:
  "\<exists>res r1 w1. rx_loop t0 tm buf r w = (Inr res, r1, w1)
      \<and> simulate r1 = simulate r \<and> tick r1 = tick r"
proof (induction t0 tm buf r w rule: rx_loop.induct)
  case (1 t0 tm buf r w)
  show ?case
  proof (cases "ticks_diff (ticks w) t0 < tm")
    case False
    then show ?thesis by (subst rx_loop.simps) simp
  next
    case True
    obtain chunk r1 w1 where ra: "read_all r w = (chunk, r1, w1)"
      by (cases "read_all r w") auto
    note mode = read_all_mode[OF ra]
    show ?thesis
    proof (cases "chunk = []")
      case True
      have "\<not> chunk \<noteq> []" using True by simp
      from "1.IH"(2)[OF \<open>ticks_diff (ticks w) t0 < tm\<close> ra[symmetric] refl this]
      show ?thesis using \<open>ticks_diff (ticks w) t0 < tm\<close> ra mode True
        by (subst rx_loop.simps) simp
    next
      case False
      obtain res where sc: "scan_buf (buf @ chunk) = Inr res"
        using scan_buf_total by blast
      show ?thesis
      proof (cases res)
        case (Some fr)
        then show ?thesis using True ra mode False sc
          by (subst rx_loop.simps) simp
      next
        case None
        from "1.IH"(1)[OF True ra[symmetric] refl False] sc None
        show ?thesis using True ra mode False
          by (subst rx_loop.simps) simp
      qed
    qed
  qed
qed

lemma mk_frame_get_sts: "\<exists>f. mk_frame CMD_GET_STS gid (Some []) = Inr f"
  using mk_frame_bytes[of CMD_GET_STS "[]" gid] by (simp add: CMD_GET_STS_def MAX_LEN_def)

lemma exchange_hw_ok:
  assumes "\<not> simulate r" "mk_frame cmd gid payload = Inr f"
  shows "\<exists>res r1 w1. exchange cmd gid payload tm r w = (Inr res, r1, w1)
           \<and> \<not> simulate r1 \<and> tick r1 = tick r"
proof -
  obtain n ra wa where wr: "write_data f r w = (n, ra, wa)"
    by (cases "write_data f r w") auto
  note m1 = write_data_mode[OF wr]
  obtain res rb wb where rx: "rx_loop (ticks wa) tm [] ra wa = (Inr res, rb, wb)"
    and m2: "simulate rb = simulate ra" "tick rb = tick ra"
    using rx_loop_ok[of "ticks wa" tm "[]" ra wa] by blast
  show ?thesis using assms wr rx m1 m2
    by (cases res) (simp_all add: exchange_def)
qed

lemma retry_loop_invariant:
  assumes "\<And>t s. I s \<Longrightarrow> \<exists>res s1. ex t s = (Inr res, s1) \<and> I s1"
    and "\<And>ms s. I s \<Longrightarrow> I (slp ms s)"
    and "I s"
  shows "\<exists>res s1. retry_loop fl rc ex slp attempts s = (res, s1) \<and> I s1
           \<and> ((\<forall>a\<in>set attempts. \<exists>t. attempt_timeout fl rc a = Inr t) \<longrightarrow> (\<exists>x. res = Inr x))"
  using assms(3)
proof (induction attempts arbitrary: s)
  case Nil
  then show ?case by simp
next
  case (Cons a rest)
  show ?case
  proof (cases "attempt_timeout fl rc a")
    case (Inl e)
    then show ?thesis using Cons.prems by auto
  next
    case (Inr t)
    obtain res s1 where e: "ex t s = (Inr res, s1)" and i: "I s1"
      using assms(1)[OF Cons.prems] by blast
    show ?thesis
    proof (cases res)
      case (Some fr)
      then show ?thesis using e i Inr by simp
    next
      case None
      have "I (if BACKOFF_ENABLED rc \<and> a < MAX_RETRIES rc - 1
               then slp (BACKOFF_MS rc * (a + 1)) s1 else s1)"
        using i assms(2) by simp
      from Cons.IH[OF this] show ?thesis using e None Inr by auto
    qed
  qed
qed

lemma exchange_with_retry_hw_ok:
  assumes "\<not> simulate r"
  shows "\<exists>res r1 w1. exchange_with_retry fl cfg CMD_GET_STS gid (Some []) (r, w) = (res, r1, w1)
           \<and> \<not> simulate r1 \<and> tick r1 = tick r
           \<and> ((\<forall>a\<in>set (py_range (MAX_RETRIES (RETRY cfg))).
                  \<exists>t. attempt_timeout fl (RETRY cfg) a = Inr t) \<longrightarrow> (\<exists>x. res = Inr x))"
proof -
  obtain f where f: "mk_frame CMD_GET_STS gid (Some []) = Inr f"
    using mk_frame_get_sts by blast
  let ?I = "\<lambda>s :: radio \<times> world. \<not> simulate (fst s) \<and> tick (fst s) = tick r"
  have "\<exists>res s1. retry_loop fl (RETRY cfg)
            (\<lambda>timeout (r, w). exchange CMD_GET_STS gid (Some []) timeout r w)
            (\<lambda>ms (r, w). (r, sleep_ms ms w))
            (py_range (MAX_RETRIES (RETRY cfg))) (r, w) = (res, s1) \<and> ?I s1
          \<and> ((\<forall>a\<in>set (py_range (MAX_RETRIES (RETRY cfg))).
                  \<exists>t. attempt_timeout fl (RETRY cfg) a = Inr t) \<longrightarrow> (\<exists>x. res = Inr x))"
  proof (rule retry_loop_invariant[where I = ?I])
    fix t and s :: "radio \<times> world"
    assume "?I s"
    then show "\<exists>res s1. (case s of (r, w) \<Rightarrow> exchange CMD_GET_STS gid (Some []) t r w) = (Inr res, s1)
                 \<and> ?I s1"
      using exchange_hw_ok[OF _ f, of "fst s" t "snd s"] by (cases s) auto
  next
    fix ms and s :: "radio \<times> world"
    assume "?I s"
    then show "?I (case s of (r, w) \<Rightarrow> (r, sleep_ms ms w))" by (cases s) simp
  next
    show "?I (r, w)" using assms by simp
  qed
  then show ?thesis by (auto simp: exchange_with_retry_def)
qed

lemma poll_loop_ids:
  "\<exists>res r1 w1. poll_loop fl cfg gids out r w = (res, r1, w1) \<and> tick r1 = tick r
      \<and> (\<forall>out1. res = Inr out1 \<longrightarrow> map dd_id out1 = map dd_id out @ gids)"
proof (induction gids arbitrary: out r w)
  case Nil
  show ?case by simp
next
  case (Cons gid gids)
  show ?case
  proof (cases "simulate r")
    case True
    obtain b1 w1 where r1: "randbits 5 w = (b1, w1)" by (cases "randbits 5 w") auto
    obtain b2 w2 where r2: "randbits 5 w1 = (b2, w2)" by (cases "randbits 5 w1") auto
    let ?st = "\<lparr>dd_id = gid,
                 state = (case sim_states r gid of None \<Rightarrow> STATE_UNKNOWN | Some v \<Rightarrow> v),
                 battery = 75 + b1 mod 25, rssi = 110 - b2 mod 30, flags = 0\<rparr>"
    from Cons.IH[of "out @ [?st]" r w2] show ?thesis
      using True r1 r2 by (simp add: Let_def)
  next
    case False
    obtain res r1 w1 where
      e: "exchange_with_retry fl cfg CMD_GET_STS gid (Some []) (r, w) = (res, r1, w1)"
      and t: "tick r1 = tick r"
      using exchange_with_retry_hw_ok[OF False] by blast
    show ?thesis
    proof (cases res)
      case (Inl err)
      then show ?thesis using False e t by simp
    next
      case (Inr resp)
      let ?st = "\<lparr>dd_id = gid, state = reply_state resp, battery = 90, rssi = 90, flags = 0\<rparr>"
      from Cons.IH[of "out @ [?st]" r1 w1] show ?thesis
        using False e t Inr by simp
    qed
  qed
qed

lemma randbits_eq: "randbits n w = (rnd_at w 0 mod 2 ^ n, w\<lparr>rnd := tl (rnd w)\<rparr>)"
  by (cases "rnd w") (simp_all add: randbits_def rnd_at_def)

lemma rnd_at_tl: "rnd_at (w\<lparr>rnd := tl (rnd w)\<rparr>) j = rnd_at w (Suc j)"
  by (cases "rnd w") (simp_all add: rnd_at_def)

lemma poll_loop_sim:
  assumes "simulate r"
  shows "poll_loop fl cfg gids out r w =
           (Inr (out @ map (\<lambda>i. \<lparr>dd_id = gids ! i,
                                 state = (case sim_states r (gids ! i) of
                                            None \<Rightarrow> STATE_UNKNOWN | Some v \<Rightarrow> v),
                                 battery = 75 + (rnd_at w (2 * i) mod 32) mod 25,
                                 rssi = 110 - (rnd_at w (2 * i + 1) mod 32) mod 30,
                                 flags = 0\<rparr>) [0..<length gids]),
            r, w\<lparr>rnd := drop (2 * length gids) (rnd w)\<rparr>)"
proof (induction gids arbitrary: out w)
  case Nil
  show ?case by simp
next
  case (Cons gid gids)
  let ?w2 = "w\<lparr>rnd := tl (tl (rnd w))\<rparr>"
  have at: "\<And>j. rnd_at ?w2 j = rnd_at w (Suc (Suc j))"
    using rnd_at_tl[of "w\<lparr>rnd := tl (rnd w)\<rparr>"] rnd_at_tl[of w] by simp
  have dr: "drop (2 * length gids) (tl (tl (rnd w))) = drop (2 * length (gid # gids)) (rnd w)"
    by (simp add: drop_Suc tl_drop)
  show ?case
    using assms Cons.IH[of _ ?w2]
    by (simp add: randbits_eq rnd_at_tl at dr Let_def map_upt_Suc del: upt_Suc)
qed

lemma poll_loop_hw:
  assumes "\<not> simulate r"
    and "\<forall>a\<in>set (py_range (MAX_RETRIES (RETRY cfg))). \<exists>t. attempt_timeout fl (RETRY cfg) a = Inr t"
  shows "\<exists>resps ss. length resps = length gids \<and> length ss = length gids
      \<and> (\<forall>i<length gids.
            exchange_with_retry fl cfg CMD_GET_STS (gids ! i) (Some []) (((r, w) # ss) ! i)
              = (Inr (resps ! i), ss ! i))
      \<and> poll_loop fl cfg gids out r w =
          (Inr (out @ map2 (\<lambda>gid resp. \<lparr>dd_id = gid, state = reply_state resp, battery = 90,
                                          rssi = 90, flags = 0\<rparr>) gids resps),
           last ((r, w) # ss))"
  using assms(1)
proof (induction gids arbitrary: out r w)
  case Nil
  show ?case by simp
next
  case (Cons gid gids)
  obtain resp r1 w1 where
    e: "exchange_with_retry fl cfg CMD_GET_STS gid (Some []) (r, w) = (Inr resp, r1, w1)"
    and s1: "\<not> simulate r1"
    using exchange_with_retry_hw_ok[OF Cons.prems, where fl = fl and cfg = cfg and gid = gid and w = w]
      assms(2) by blast
  let ?st = "\<lparr>dd_id = gid, state = reply_state resp, battery = 90, rssi = 90, flags = 0\<rparr>"
  obtain resps ss where len: "length resps = length gids" "length ss = length gids"
    and tr: "\<forall>i<length gids.
            exchange_with_retry fl cfg CMD_GET_STS (gids ! i) (Some []) (((r1, w1) # ss) ! i)
              = (Inr (resps ! i), ss ! i)"
    and pl: "poll_loop fl cfg gids (out @ [?st]) r1 w1 =
          (Inr ((out @ [?st]) @ map2 (\<lambda>gid resp. \<lparr>dd_id = gid, state = reply_state resp,
                                          battery = 90, rssi = 90, flags = 0\<rparr>) gids resps),
           last ((r1, w1) # ss))"
    using Cons.IH[OF s1, where out = "out @ [?st]" and w = w1] by blast
  let ?resps = "resp # resps" and ?ss = "(r1, w1) # ss"
  have a: "length ?resps = length (gid # gids)" "length ?ss = length (gid # gids)"
    using len by simp_all
  have b: "\<forall>i<length (gid # gids).
            exchange_with_retry fl cfg CMD_GET_STS ((gid # gids) ! i) (Some []) (((r, w) # ?ss) ! i)
              = (Inr (?resps ! i), ?ss ! i)"
  proof (intro allI impI)
    fix i assume "i < length (gid # gids)"
    then show "exchange_with_retry fl cfg CMD_GET_STS ((gid # gids) ! i) (Some []) (((r, w) # ?ss) ! i)
              = (Inr (?resps ! i), ?ss ! i)"
      using e tr by (cases i) simp_all
  qed
  have c: "poll_loop fl cfg (gid # gids) out r w =
          (Inr (out @ map2 (\<lambda>gid resp. \<lparr>dd_id = gid, state = reply_state resp, battery = 90,
                                          rssi = 90, flags = 0\<rparr>) (gid # gids) ?resps),
           last ((r, w) # ?ss))"
    using Cons.prems e pl by simp
  show ?case using a b c by blast
qed

text \<open>
  C7 as the claim states it fails: the radio keeps no cache of statuses, and on an
  invocation where no sweep is due \<open>poll_status\<close> returns the empty list. With the
  shipped configuration the period is 7, so the first call on a fresh radio returns
  nothing for the five configured devices.
\<close>

theorem poll_status_counterexample:
  "poll_status exact_ops RADIO sim_radio idle_world
     = (Inr [], sim_radio\<lparr>tick := 1\<rparr>, idle_world)
   \<and> GROUP_IDS RADIO = [1, 2, 3, 4, 5]"
  by (simp add: poll_status_def poll_period_def RADIO_def sim_radio_def)

text \<open>
  C7, amended. Every invocation of \<open>poll_status\<close> increments the tick counter. When the
  incremented counter is not a multiple of the period \<open>max(1, POLL_PERIOD_MS // 200)\<close>,
  it returns the empty list and does nothing else. When it is (a sweep is due), every
  configured device is sampled afresh, in the configured order, and a returned list holds
  one status per configured id:
  \<^item> in simulation the status of a device holds its simulated state
    (\<open>STATE_UNKNOWN\<close> when it has none), battery \<open>75 + getrandbits(5) % 25\<close> and
    rssi \<open>110 - getrandbits(5) % 30\<close> from the next two random values, and nothing
    is raised;
  \<^item> on hardware one \<open>_exchange_with_retry(CMD_GET_STS, gid)\<close> is run per device,
    each from the state the previous one left, and the status holds the state byte of
    its reply (\<open>STATE_UNKNOWN\<close> without a usable reply), battery 90 and rssi 90;
    nothing is raised provided the timeout computations of the retry policy return a
    value.
\<close>

theorem poll_status_covers_when_due:
  "\<exists>res r1 w1.
     poll_status fl cfg r w = (res, r1, w1) \<and> tick r1 = tick r + 1
     \<and> ((tick r + 1) mod poll_period cfg \<noteq> 0 \<longrightarrow>
          res = Inr [] \<and> r1 = r\<lparr>tick := tick r + 1\<rparr> \<and> w1 = w)
     \<and> ((tick r + 1) mod poll_period cfg = 0 \<longrightarrow>
          (\<forall>out. res = Inr out \<longrightarrow> map dd_id out = GROUP_IDS cfg)
          \<and> (simulate r \<longrightarrow>
               res = Inr (map (\<lambda>i. \<lparr>dd_id = GROUP_IDS cfg ! i,
                                      state = (case sim_states r (GROUP_IDS cfg ! i) of
                                                 None \<Rightarrow> STATE_UNKNOWN | Some v \<Rightarrow> v),
                                      battery = 75 + (rnd_at w (2 * i) mod 32) mod 25,
                                      rssi = 110 - (rnd_at w (2 * i + 1) mod 32) mod 30,
                                      flags = 0\<rparr>) [0..<length (GROUP_IDS cfg)])
               \<and> r1 = r\<lparr>tick := tick r + 1\<rparr>
               \<and> w1 = w\<lparr>rnd := drop (2 * length (GROUP_IDS cfg)) (rnd w)\<rparr>)
          \<and> (\<not> simulate r
               \<and> (\<forall>a\<in>set (py_range (MAX_RETRIES (RETRY cfg))).
                      \<exists>t. attempt_timeout fl (RETRY cfg) a = Inr t) \<longrightarrow>
               (\<exists>resps ss.
                   length resps = length (GROUP_IDS cfg) \<and> length ss = length (GROUP_IDS cfg)
                   \<and> (\<forall>i<length (GROUP_IDS cfg).
                         exchange_with_retry fl cfg CMD_GET_STS (GROUP_IDS cfg ! i) (Some [])
                           (((r\<lparr>tick := tick r + 1\<rparr>, w) # ss) ! i)
                         = (Inr (resps ! i), ss ! i))
                   \<and> res = Inr (map2 (\<lambda>gid resp. \<lparr>dd_id = gid, state = reply_state resp,
                                                    battery = 90, rssi = 90, flags = 0\<rparr>)
                                  (GROUP_IDS cfg) resps)
                   \<and> (r1, w1) = last ((r\<lparr>tick := tick r + 1\<rparr>, w) # ss))))"
proof (cases "(tick r + 1) mod poll_period cfg = 0")
  case False
  then show ?thesis by (simp add: poll_status_def Let_def)
next
  case True
  let ?r = "r\<lparr>tick := tick r + 1\<rparr>"
  have ps: "poll_status fl cfg r w = poll_loop fl cfg (GROUP_IDS cfg) [] ?r w"
    using True by (simp add: poll_status_def Let_def)
  obtain res r1 w1 where pl: "poll_loop fl cfg (GROUP_IDS cfg) [] ?r w = (res, r1, w1)"
    and tk: "tick r1 = tick ?r"
    and ids: "\<forall>out1. res = Inr out1 \<longrightarrow> map dd_id out1 = GROUP_IDS cfg"
    using poll_loop_ids[of fl cfg "GROUP_IDS cfg" "[]" ?r w] by auto
  have sim: "simulate r \<longrightarrow>
               res = Inr (map (\<lambda>i. \<lparr>dd_id = GROUP_IDS cfg ! i,
                                      state = (case sim_states r (GROUP_IDS cfg ! i) of
                                                 None \<Rightarrow> STATE_UNKNOWN | Some v \<Rightarrow> v),
                                      battery = 75 + (rnd_at w (2 * i) mod 32) mod 25,
                                      rssi = 110 - (rnd_at w (2 * i + 1) mod 32) mod 30,
                                      flags = 0\<rparr>) [0..<length (GROUP_IDS cfg)])
               \<and> r1 = ?r
               \<and> w1 = w\<lparr>rnd := drop (2 * length (GROUP_IDS cfg)) (rnd w)\<rparr>"
  proof
    assume "simulate r"
    hence "simulate ?r" by simp
    from poll_loop_sim[OF this, of fl cfg "GROUP_IDS cfg" "[]" w] pl
    show "res = Inr (map (\<lambda>i. \<lparr>dd_id = GROUP_IDS cfg ! i,
                                      state = (case sim_states r (GROUP_IDS cfg ! i) of
                                                 None \<Rightarrow> STATE_UNKNOWN | Some v \<Rightarrow> v),
                                      battery = 75 + (rnd_at w (2 * i) mod 32) mod 25,
                                      rssi = 110 - (rnd_at w (2 * i + 1) mod 32) mod 30,
                                      flags = 0\<rparr>) [0..<length (GROUP_IDS cfg)])
               \<and> r1 = ?r
               \<and> w1 = w\<lparr>rnd := drop (2 * length (GROUP_IDS cfg)) (rnd w)\<rparr>"
      by simp
  qed
  have hw: "\<not> simulate r
               \<and> (\<forall>a\<in>set (py_range (MAX_RETRIES (RETRY cfg))).
                      \<exists>t. attempt_timeout fl (RETRY cfg) a = Inr t) \<longrightarrow>
               (\<exists>resps ss.
                   length resps = length (GROUP_IDS cfg) \<and> length ss = length (GROUP_IDS cfg)
                   \<and> (\<forall>i<length (GROUP_IDS cfg).
                         exchange_with_retry fl cfg CMD_GET_STS (GROUP_IDS cfg ! i) (Some [])
                           (((?r, w) # ss) ! i)
                         = (Inr (resps ! i), ss ! i))
                   \<and> res = Inr (map2 (\<lambda>gid resp. \<lparr>dd_id = gid, state = reply_state resp,
                                                    battery = 90, rssi = 90, flags = 0\<rparr>)
                                  (GROUP_IDS cfg) resps)
                   \<and> (r1, w1) = last ((?r, w) # ss))"
  proof
    assume a: "\<not> simulate r
               \<and> (\<forall>a\<in>set (py_range (MAX_RETRIES (RETRY cfg))).
                      \<exists>t. attempt_timeout fl (RETRY cfg) a = Inr t)"
    hence "\<not> simulate ?r" by simp
    from poll_loop_hw[OF this, where gids = "GROUP_IDS cfg" and out = "[]" and w = w] a pl
    show "\<exists>resps ss.
                   length resps = length (GROUP_IDS cfg) \<and> length ss = length (GROUP_IDS cfg)
                   \<and> (\<forall>i<length (GROUP_IDS cfg).
                         exchange_with_retry fl cfg CMD_GET_STS (GROUP_IDS cfg ! i) (Some [])
                           (((?r, w) # ss) ! i)
                         = (Inr (resps ! i), ss ! i))
                   \<and> res = Inr (map2 (\<lambda>gid resp. \<lparr>dd_id = gid, state = reply_state resp,
                                                    battery = 90, rssi = 90, flags = 0\<rparr>)
                                  (GROUP_IDS cfg) resps)
                   \<and> (r1, w1) = last ((?r, w) # ss)"
      by (metis (no_types, lifting) Pair_inject append_Nil)
  qed
  show ?thesis using True ps pl tk ids sim hw by simp
qed

theorem poll_status_covers_when_due_witness:
  "fst (poll_status exact_ops RADIO (sim_radio\<lparr>tick := 6\<rparr>) (idle_world\<lparr>rnd := [3, 40, 30, 7]\<rparr>)) =
       Inr [\<lparr>dd_id = 1, state = 1, battery = 78, rssi = 102, flags = 0\<rparr>,
            \<lparr>dd_id = 2, state = 2, battery = 80, rssi = 103, flags = 0\<rparr>,
            \<lparr>dd_id = 3, state = 1, battery = 75, rssi = 110, flags = 0\<rparr>,
            \<lparr>dd_id = 4, state = 1, battery = 75, rssi = 110, flags = 0\<rparr>,
            \<lparr>dd_id = 5, state = 2, battery = 75, rssi = 110, flags = 0\<rparr>]
   \<and> fst (poll_status exact_ops RADIO sim_radio idle_world) = Inr []
   \<and> fst (poll_status exact_ops
            (RADIO\<lparr>GROUP_IDS := [1, 2], POLL_PERIOD_MS := 200,
                    RETRY := \<lparr>MAX_RETRIES = 2, TIMEOUT_BASE_MS = 10,
                              TIMEOUT_MULTIPLIER = PyFloat (3 / 2),
                              BACKOFF_ENABLED = True, BACKOFF_MS = 100\<rparr>\<rparr>)
            hw_radio
            (idle_world\<lparr>uart_rx := [RxData [0xA5, 1, 0x20, 1, 1, 1, 0x20, 0x5A]]\<rparr>)) =
       Inr [\<lparr>dd_id = 1, state = 1, battery = 90, rssi = 90, flags = 0\<rparr>,
            \<lparr>dd_id = 2, state = 0, battery = 90, rssi = 90, flags = 0\<rparr>]"
proof -
  let ?cfg = "RADIO\<lparr>GROUP_IDS := [1, 2], POLL_PERIOD_MS := 200,
                    RETRY := \<lparr>MAX_RETRIES = 2, TIMEOUT_BASE_MS = 10,
                              TIMEOUT_MULTIPLIER = PyFloat (3 / 2),
                              BACKOFF_ENABLED = True, BACKOFF_MS = 100\<rparr>\<rparr>"
  let ?w = "idle_world\<lparr>uart_rx := [RxData [0xA5, 1, 0x20, 1, 1, 1, 0x20, 0x5A]]\<rparr>"
  have a: "fst (poll_status exact_ops RADIO (sim_radio\<lparr>tick := 6\<rparr>) (idle_world\<lparr>rnd := [3, 40, 30, 7]\<rparr>)) =
       Inr [\<lparr>dd_id = 1, state = 1, battery = 78, rssi = 102, flags = 0\<rparr>,
            \<lparr>dd_id = 2, state = 2, battery = 80, rssi = 103, flags = 0\<rparr>,
            \<lparr>dd_id = 3, state = 1, battery = 75, rssi = 110, flags = 0\<rparr>,
            \<lparr>dd_id = 4, state = 1, battery = 75, rssi = 110, flags = 0\<rparr>,
            \<lparr>dd_id = 5, state = 2, battery = 75, rssi = 110, flags = 0\<rparr>]"
    using poll_status_covers_when_due
            [of exact_ops RADIO "sim_radio\<lparr>tick := 6\<rparr>" "idle_world\<lparr>rnd := [3, 40, 30, 7]\<rparr>"]
    by (simp add: poll_status_def poll_period_def RADIO_def sim_radio_def idle_world_def
          randbits_def STATE_UNKNOWN_def)
  have b: "fst (poll_status exact_ops RADIO sim_radio idle_world) = Inr []"
    using poll_status_covers_when_due[of exact_ops RADIO sim_radio idle_world]
    by (simp add: poll_status_def poll_period_def RADIO_def sim_radio_def)
  have c: "fst (poll_status exact_ops ?cfg hw_radio ?w) =
       Inr [\<lparr>dd_id = 1, state = 1, battery = 90, rssi = 90, flags = 0\<rparr>,
            \<lparr>dd_id = 2, state = 0, battery = 90, rssi = 90, flags = 0\<rparr>]"
    using poll_status_covers_when_due[of exact_ops ?cfg hw_radio ?w]
    by (simp add: poll_status_def poll_period_def RADIO_def hw_radio_def idle_world_def
          exchange_with_retry_def py_range_def upt_rec attempt_timeout_def exact_ops_def
          bnd_def py_int_def exchange_def mk_frame_def chk_def CMD_GET_STS_def MAX_LEN_def
          PROTO_VER_def START_BYTE_def END_BYTE_def write_data_def read_all_def
          rx_loop.simps scan_buf_def find_def slice_def parse_frame_eq reply_state_def
          stats0_def update_tx_def update_rx_def update_timeout_def sleep_ms_def ticks_def
          ticks_diff_def STATE_UNKNOWN_def)
  show ?thesis using a b c by simp
qed

section \<open>Properties of the device-state table\<close>

lemma poll_status_ids:
  "\<exists>res r1 w1. poll_status fl cfg r w = (res, r1, w1)
      \<and> (\<forall>out. res = Inr out \<longrightarrow> out = [] \<or> map dd_id out = GROUP_IDS cfg)"
  using poll_loop_ids[of fl cfg "GROUP_IDS cfg" "[]" "r\<lparr>tick := tick r + 1\<rparr>" w]
  by (auto simp: poll_status_def Let_def)

lemma dom_init_states_aux:
  "dom (fold (\<lambda>i m. m(i \<mapsto> v)) ids m0) = dom m0 \<union> set ids"
  by (induction ids arbitrary: m0) auto

lemma dom_init_states: "dom (init_states cfg) = set (GROUP_IDS cfg)"
  by (simp add: init_states_def dom_init_states_aux)

lemma dom_apply_statuses: "dom (apply_statuses sts m) = dom m \<union> dd_id ` set sts"
  unfolding apply_statuses_def by (induction sts arbitrary: m) auto

text \<open>
  C2 as the claim states it fails: the assignment \<open>self.states[st.dd_id] = st.state\<close>
  has no membership check, so a status for an id that is not a key of the table inserts
  that id. Here id 9 is not a key of the initial table and is one after the update.
\<close>

theorem apply_status_counterexample:
  "init_states RADIO 9 = None
   \<and> apply_statuses [\<lparr>dd_id = 9, state = 1, battery = 90, rssi = 90, flags = 0\<rparr>]
        (init_states RADIO) 9 = Some 1"
  by (simp add: init_states_def apply_statuses_def RADIO_def)

text \<open>
  C2, amended. The table is created with exactly the configured ids as keys. Applying the
  statuses that the radio returned assigns each of them without a membership check: the
  keys afterwards are the keys before plus the ids of the statuses. Since
  \<open>Radio.poll_status\<close> returns statuses of configured ids only, the key set equals the
  configured id set after every \<open>_update_states\<close>.
\<close>

theorem update_states_keys:
  "dom (init_states cfg) = set (GROUP_IDS cfg)
   \<and> dom (apply_statuses sts m) = dom m \<union> dd_id ` set sts
   \<and> (dom (states app) = set (GROUP_IDS cfg) \<longrightarrow>
        dom (states (fst (update_states fl cfg app r w))) = set (GROUP_IDS cfg))"
proof -
  obtain res r1 w1 where p: "poll_status fl cfg r w = (res, r1, w1)"
    and ids: "\<forall>out. res = Inr out \<longrightarrow> out = [] \<or> map dd_id out = GROUP_IDS cfg"
    using poll_status_ids[of fl cfg r w] by blast
  have "dom (states app) = set (GROUP_IDS cfg) \<longrightarrow>
        dom (states (fst (update_states fl cfg app r w))) = set (GROUP_IDS cfg)"
  proof (cases res)
    case (Inl e)
    then show ?thesis using p by (simp add: update_states_def)
  next
    case (Inr out)
    hence "dd_id ` set out \<subseteq> set (GROUP_IDS cfg)"
      using ids by (auto simp flip: set_map)
    then show ?thesis using p Inr by (auto simp: update_states_def dom_apply_statuses)
  qed
  thus ?thesis by (simp add: dom_init_states dom_apply_statuses)
qed

theorem update_states_keys_witness:
  "dom (states \<lparr>states = init_states RADIO, error_count = 0\<rparr>) = set (GROUP_IDS RADIO)
   \<and> dom (states (fst (update_states exact_ops RADIO
                          \<lparr>states = init_states RADIO, error_count = 0\<rparr>
                          (sim_radio\<lparr>tick := 6\<rparr>) idle_world))) = {1, 2, 3, 4, 5}
   \<and> states (fst (update_states exact_ops RADIO
                     \<lparr>states = init_states RADIO, error_count = 0\<rparr>
                     (sim_radio\<lparr>tick := 6\<rparr>) idle_world)) 2 = Some 2"
  using update_states_keys
          [where fl = exact_ops and cfg = RADIO and app = "\<lparr>states = init_states RADIO, error_count = 0\<rparr>"
             and r = "sim_radio\<lparr>tick := 6\<rparr>" and w = idle_world and sts = "[]"
             and m = "Map.empty"]
  by (simp add: update_states_def poll_status_def poll_period_def RADIO_def sim_radio_def
        idle_world_def randbits_def apply_statuses_def init_states_def)

section \<open>Properties of frame acceptance\<close>

lemma find_idx_skip: "x \<notin> set pre \<Longrightarrow> find_idx x (pre @ rest) i = find_idx x rest (i + int (length pre))"
  by (induction pre arbitrary: i) (auto simp: add.assoc)

lemma scan_buf_candidate:
  assumes "word_of_int START_BYTE \<notin> set pre" "word_of_int END_BYTE \<notin> set mid"
  shows "scan_buf (pre @ (word_of_int START_BYTE # mid @ [word_of_int END_BYTE]) @ post) =
           parse_frame (word_of_int START_BYTE # mid @ [word_of_int END_BYTE])"
proof -
  let ?S = "word_of_int START_BYTE :: byte" and ?E = "word_of_int END_BYTE :: byte"
  let ?buf = "pre @ (?S # mid @ [?E]) @ post"
  have s: "find ?buf START_BYTE 0 = int (length pre)"
    using assms(1) by (simp add: find_def find_idx_skip)
  have "drop (Suc (length pre)) ?buf = mid @ ?E # post" by simp
  hence e: "find ?buf END_BYTE (int (length pre) + 1) = int (length pre) + 1 + int (length mid)"
    using assms(2) by (simp add: find_def find_idx_skip nat_add_distrib)
  have "slice ?buf (int (length pre)) (int (length pre) + 1 + int (length mid) + 1) = ?S # mid @ [?E]"
    by (simp add: slice_def nat_add_distrib)
  thus ?thesis using s e by (simp add: scan_buf_def Let_def)
qed

lemma rx_loop_accepts:
  assumes "ticks_diff (ticks w) t0 < tm" "\<not> simulate r" "uart r"
    and "uart_rx w = RxData chunk # rest" "chunk \<noteq> []"
    and "scan_buf (buf @ chunk) = Inr (Some fr)"
  shows "fst (rx_loop t0 tm buf r w) = Inr (Some fr)"
  using assms by (subst rx_loop.simps) (simp add: read_all_def)

text \<open>
  C8 as the claim states it fails: the search takes the first start-marker byte and the
  first end-marker byte after it and tries that slice only. A stray start byte in front
  of a valid frame makes the slice invalid, and nothing is accepted: the exchange times
  out although the buffer holds a structurally valid frame.
\<close>

theorem first_valid_frame_counterexample:
  "parse_frame [0xA5, 1, 0x20, 1, 1, 1, 0x20, 0x5A] = Inr (Some (0x20, 1, [1]))
   \<and> scan_buf (0xA5 # [0xA5, 1, 0x20, 1, 1, 1, 0x20, 0x5A]) = Inr None
   \<and> fst (exchange CMD_GET_STS 1 (Some []) 10 hw_radio
            (idle_world\<lparr>uart_rx := [RxData (0xA5 # [0xA5, 1, 0x20, 1, 1, 1, 0x20, 0x5A])]\<rparr>))
       = Inr None"
proof -
  have a: "parse_frame [0xA5, 1, 0x20, 1, 1, 1, 0x20, 0x5A] = Inr (Some (0x20, 1, [1]))"
    by (simp add: parse_frame_eq chk_def START_BYTE_def END_BYTE_def)
  have b: "scan_buf (0xA5 # [0xA5, 1, 0x20, 1, 1, 1, 0x20, 0x5A]) = Inr None"
    by (simp add: scan_buf_def find_def slice_def parse_frame_eq START_BYTE_def END_BYTE_def)
  have c: "fst (exchange CMD_GET_STS 1 (Some []) 10 hw_radio
            (idle_world\<lparr>uart_rx := [RxData (0xA5 # [0xA5, 1, 0x20, 1, 1, 1, 0x20, 0x5A])]\<rparr>))
       = Inr None"
    using b
    by (simp add: exchange_def hw_radio_def idle_world_def mk_frame_def bnd_def chk_def
          CMD_GET_STS_def MAX_LEN_def PROTO_VER_def START_BYTE_def END_BYTE_def
          write_data_def read_all_def rx_loop.simps ticks_def ticks_diff_def sleep_ms_def
          stats0_def update_tx_def update_rx_def)
  show ?thesis using a b c by simp
qed

lemma exchange_accepts:
  assumes "\<not> simulate r" "uart r" "0 < tm" "mk_frame cmd gid payload = Inr f"
    and "uart_rx w = RxData chunk # rest" "chunk \<noteq> []"
    and "scan_buf chunk = Inr (Some fr)"
  shows "fst (exchange cmd gid payload tm r w) = Inr (Some fr)"
proof -
  obtain n r1 w1 where wr: "write_data f r w = (n, r1, w1)"
    by (cases "write_data f r w") auto
  have keep: "\<not> simulate r1" "uart r1" "uart_rx w1 = RxData chunk # rest"
    using wr assms(1,2,5)
    by (auto simp: write_data_def split: if_splits list.splits tx_event.splits)
  have "fst (rx_loop (ticks w1) tm [] r1 w1) = Inr (Some fr)"
    using keep assms(3,6,7)
    by (intro rx_loop_accepts[where chunk = chunk and rest = rest]) (simp_all add: ticks_diff_def)
  then obtain r2 w2 where "rx_loop (ticks w1) tm [] r1 w1 = (Inr (Some fr), r2, w2)"
    by (cases "rx_loop (ticks w1) tm [] r1 w1") auto
  thus ?thesis using assms(1,4) wr by (simp add: exchange_def)
qed

text \<open>
  C8, amended. In each round of a physical-mode exchange that reads something, the
  candidate is the slice of the accumulated buffer from the first start-marker byte to the
  first end-marker byte after it. When that candidate is a structurally valid frame the
  exchange returns it, whatever command and id it carries (so a stale reply to an earlier
  exchange is accepted too), and whatever follows it in the buffer. Bytes before the
  candidate must not contain the start marker, and the candidate must not contain the end
  marker before its last byte.
\<close>

theorem exchange_accepts_first_candidate:
  assumes "word_of_int START_BYTE \<notin> set pre" "word_of_int END_BYTE \<notin> set mid"
    and "parse_frame (word_of_int START_BYTE # mid @ [word_of_int END_BYTE]) = Inr (Some fr)"
  shows "scan_buf (pre @ (word_of_int START_BYTE # mid @ [word_of_int END_BYTE]) @ post)
           = Inr (Some fr)
       \<and> (ticks_diff (ticks w) t0 < tm \<and> \<not> simulate r \<and> uart r
            \<and> uart_rx w = RxData chunk # rest \<and> chunk \<noteq> []
            \<and> buf @ chunk = pre @ (word_of_int START_BYTE # mid @ [word_of_int END_BYTE]) @ post
          \<longrightarrow> fst (rx_loop t0 tm buf r w) = Inr (Some fr))
       \<and> (\<not> simulate r \<and> uart r \<and> 0 < tm \<and> mk_frame cmd gid payload = Inr f
            \<and> uart_rx w =
                RxData (pre @ (word_of_int START_BYTE # mid @ [word_of_int END_BYTE]) @ post) # later
          \<longrightarrow> fst (exchange cmd gid payload tm r w) = Inr (Some fr))"
proof -
  let ?buf = "pre @ (word_of_int START_BYTE # mid @ [word_of_int END_BYTE]) @ post"
  have sc: "scan_buf ?buf = Inr (Some fr)"
    using scan_buf_candidate[OF assms(1,2)] assms(3) by simp
  have lp: "ticks_diff (ticks w) t0 < tm \<and> \<not> simulate r \<and> uart r
            \<and> uart_rx w = RxData chunk # rest \<and> chunk \<noteq> [] \<and> buf @ chunk = ?buf
          \<longrightarrow> fst (rx_loop t0 tm buf r w) = Inr (Some fr)"
    using sc rx_loop_accepts[of w t0 tm r chunk rest buf fr] by auto
  have ex: "\<not> simulate r \<and> uart r \<and> 0 < tm \<and> mk_frame cmd gid payload = Inr f
            \<and> uart_rx w = RxData ?buf # later
          \<longrightarrow> fst (exchange cmd gid payload tm r w) = Inr (Some fr)"
    using sc exchange_accepts[of r tm cmd gid payload f w ?buf later fr] by auto
  show ?thesis using sc lp ex by blast
qed

theorem exchange_accepts_first_candidate_witness:
  "fst (exchange CMD_GET_STS 1 (Some []) 500 hw_radio
          (idle_world\<lparr>uart_rx := [RxData [0x00, 0x17, 0xA5, 1, 0x20, 2, 1, 1, 0x23, 0x5A, 0xFF]]\<rparr>))
     = Inr (Some (0x20, 2, [1]))"
proof -
  have m: "mk_frame CMD_GET_STS 1 (Some []) = Inr [0xA5, 1, 0x20, 1, 0, 0x20, 0x5A]"
    by (simp add: mk_frame_def bnd_def chk_def CMD_GET_STS_def MAX_LEN_def PROTO_VER_def
          START_BYTE_def END_BYTE_def)
  have p: "parse_frame (word_of_int START_BYTE # [1, 0x20, 2, 1, 1, 0x23] @ [word_of_int END_BYTE])
             = Inr (Some (0x20, 2, [1]))"
    by (simp add: parse_frame_eq chk_def START_BYTE_def END_BYTE_def)
  show ?thesis
    using exchange_accepts_first_candidate
            [where pre = "[0x00, 0x17]" and mid = "[1, 0x20, 2, 1, 1, 0x23]" and post = "[0xFF]"
               and fr = "(0x20, 2, [1])" and r = hw_radio and tm = 500 and cmd = CMD_GET_STS
               and gid = 1 and payload = "Some []" and f = "[0xA5, 1, 0x20, 1, 0, 0x20, 0x5A]"
               and w = "idle_world\<lparr>uart_rx := [RxData [0x00, 0x17, 0xA5, 1, 0x20, 2, 1, 1, 0x23, 0x5A, 0xFF]]\<rparr>"
               and later = "[]",
             OF _ _ p] m
    by (simp add: START_BYTE_def END_BYTE_def hw_radio_def idle_world_def)
qed

end
